theory Spec2Isabelle
  imports Main
begin

section \<open>Python values and errors\<close>

text \<open>
  The module \<^verbatim>\<open>pybaseball/team_batting.py\<close> scrapes two kinds of Baseball-Reference pages
  into pandas tables.  Its two entry points \<^verbatim>\<open>team_batting_bref\<close> and
  \<^verbatim>\<open>season_batting_bref\<close> are embedded below, statement by statement.  Exceptions are
  values of the type \<open>error\<close>; the text written by \<^verbatim>\<open>print\<close> is kept as a list of lines.

  Three things the module imports are not part of it.  The decorator \<^verbatim>\<open>cache.df_cache\<close>
  is left out: the functions are modelled as they run when nothing is cached.  The session
  and the HTML parser are one parameter \<open>session_get\<close>, from a URL to the parsed document;
  a request that fails is outside the model.  Of pandas, the constructor \<^verbatim>\<open>DataFrame\<close> and
  \<^verbatim>\<open>dropna\<close> are modelled on lists of rows.  Assertions are executed (no \<^verbatim>\<open>-O\<close>).
\<close>

datatype error =
    ValueError string
  | IndexError string
  | AssertionError
  | AttributeError string

text \<open>A cell of a table: the season (a Python int), a scraped text, or a missing value.\<close>

datatype cell = CInt int | CStr string | CNone

subsection \<open>Strings\<close>

text \<open>\<^verbatim>\<open>str(n)\<close> and \<^verbatim>\<open>"{}".format(n)\<close> for an int: its decimal digits.\<close>

definition digit_char :: "nat \<Rightarrow> char" where
  "digit_char d = ''0123456789'' ! d"

fun str_nat :: "nat \<Rightarrow> string" where
  "str_nat n = (if n < 10 then [digit_char n] else str_nat (n div 10) @ [digit_char (n mod 10)])"

declare str_nat.simps [simp del]

definition str_int :: "int \<Rightarrow> string" where
  "str_int i = (if i < 0 then CHR ''-'' # str_nat (nat (- i)) else str_nat (nat i))"

text \<open>
  \<^verbatim>\<open>s.strip()\<close>: leading and trailing whitespace removed.  Characters are code points
  below 256; Python's \<^verbatim>\<open>str.isspace\<close> holds there for 9 to 13, 28 to 32, 133 and 160.
\<close>

definition isspace :: "char \<Rightarrow> bool" where
  "isspace c = (of_char c \<in> set [9, 10, 11, 12, 13, 28, 29, 30, 31, 32, 133, 160 :: nat])"

definition strip :: "string \<Rightarrow> string" where
  "strip s = rev (dropWhile isspace (rev (dropWhile isspace s)))"

text \<open>\<^verbatim>\<open>s.replace(c, '')\<close> for a one-character \<open>c\<close>: every occurrence of \<open>c\<close> removed.\<close>

definition replace_char :: "char \<Rightarrow> string \<Rightarrow> string" where
  "replace_char c s = filter (\<lambda>x. x \<noteq> c) s"

text \<open>\<^verbatim>\<open>sub in s\<close>: \<open>sub\<close> occurs in \<open>s\<close> as a contiguous substring.\<close>

fun str_in :: "string \<Rightarrow> string \<Rightarrow> bool" where
  "str_in sub [] = (sub = [])"
| "str_in sub (c # cs) = (take (length sub) (c # cs) = sub \<or> str_in sub cs)"

text \<open>\<^verbatim>\<open>s.split(sep)\<close> for a one-character separator: empty pieces are kept.\<close>

fun split :: "char \<Rightarrow> string \<Rightarrow> string list" where
  "split sep [] = [[]]"
| "split sep (c # cs) =
     (if c = sep then [] # split sep cs
      else (case split sep cs of [] \<Rightarrow> [[c]] | w # ws \<Rightarrow> (c # w) # ws))"

subsection \<open>Lists\<close>

text \<open>
  \<^verbatim>\<open>xs.insert(i, x)\<close> for \<open>i \<ge> 0\<close>: \<open>x\<close> is put before position \<open>i\<close>, and at the end
  when the list has fewer than \<open>i\<close> elements.  \<^verbatim>\<open>xs[i:j]\<close> for \<open>0 \<le> i \<le> j\<close> never
  raises.
\<close>

definition list_insert :: "nat \<Rightarrow> 'a \<Rightarrow> 'a list \<Rightarrow> 'a list" where
  "list_insert i x xs = take i xs @ x # drop i xs"

definition slice :: "nat \<Rightarrow> nat \<Rightarrow> 'a list \<Rightarrow> 'a list" where
  "slice i j xs = take (j - i) (drop i xs)"

section \<open>The parsed document (BeautifulSoup)\<close>

text \<open>
  \<^verbatim>\<open>BeautifulSoup(response.content, 'html.parser')\<close> yields a tree of tags and text.
  A tag has a name, a dictionary of attributes (kept as an association list; the value of
  \<^verbatim>\<open>class\<close> is its classes joined by single spaces, which is what a search for a class
  string with a space is compared with) and its children.
\<close>

datatype node = Text string | Tag string "(string \<times> string) list" "node list"

text \<open>All tags and texts below a node, in document order.\<close>

fun descendants :: "node \<Rightarrow> node list" where
  "descendants (Text s) = []"
| "descendants (Tag n a cs) = concat (map (\<lambda>c. c # descendants c) cs)"

text \<open>\<^verbatim>\<open>tag.get(key)\<close>: the attribute's value, or None.\<close>

fun get :: "node \<Rightarrow> string \<Rightarrow> string option" where
  "get (Text s) key = None"
| "get (Tag n a cs) key = map_of a key"

fun matches :: "string \<Rightarrow> (string \<times> string) list \<Rightarrow> node \<Rightarrow> bool" where
  "matches name attrs (Text s) = False"
| "matches name attrs (Tag n a cs) =
     (n = name \<and> list_all (\<lambda>(k, v). map_of a k = Some v) attrs)"

text \<open>
  \<^verbatim>\<open>tag.find_all(name, attrs)\<close>: the descendants with that name and those attribute values;
  \<^verbatim>\<open>tag.find(name, attrs)\<close>: the first of them, or None.
\<close>

definition find_all :: "string \<Rightarrow> (string \<times> string) list \<Rightarrow> node \<Rightarrow> node list" where
  "find_all name attrs t = filter (matches name attrs) (descendants t)"

definition find :: "string \<Rightarrow> (string \<times> string) list \<Rightarrow> node \<Rightarrow> node option" where
  "find name attrs t = (case find_all name attrs t of [] \<Rightarrow> None | x # _ \<Rightarrow> Some x)"

text \<open>\<^verbatim>\<open>tag.text\<close>: the texts below the tag, concatenated.\<close>

fun text_of :: "node \<Rightarrow> string" where
  "text_of (Text s) = s"
| "text_of (Tag n a cs) = concat (map text_of cs)"

section \<open>The table (pandas)\<close>

text \<open>
  A \<^verbatim>\<open>DataFrame\<close> is its column labels and its rows.  The constructor, given a list of
  rows and the labels: no row gives the empty table under the labels; otherwise the rows
  are laid out in an array as wide as the longest row, the shorter rows filled with None,
  and a number of labels different from that width raises ValueError.  Column dtypes are
  not modelled: a cell keeps the value it was given (pandas may store the integers of a
  column that also holds None as floats of the same value).
\<close>

record 'h dataframe =
  columns :: "'h list"
  rows :: "cell list list"

definition pad_row :: "nat \<Rightarrow> cell list \<Rightarrow> cell list" where
  "pad_row w r = r @ replicate (w - length r) CNone"

definition width :: "cell list list \<Rightarrow> nat" where
  "width data = foldr max (map length data) 0"

definition DataFrame :: "cell list list \<Rightarrow> 'h list \<Rightarrow> error + 'h dataframe" where
  "DataFrame data cols =
     (if data = [] then Inr \<lparr>columns = cols, rows = []\<rparr>
      else if length cols \<noteq> width data then
        Inl (ValueError (str_int (int (length cols)) @ '' columns passed, passed data had ''
               @ str_int (int (width data)) @ '' columns''))
      else Inr \<lparr>columns = cols, rows = map (pad_row (width data)) data\<rparr>)"

text \<open>\<^verbatim>\<open>df.dropna()\<close>: a new table without the rows that hold a missing value.\<close>

definition dropna :: "'h dataframe \<Rightarrow> 'h dataframe" where
  "dropna df = df\<lparr>rows := filter (\<lambda>r. CNone \<notin> set r) (rows df)\<rparr>"

section \<open>The season loop\<close>

text \<open>
  The state both entry points thread through \<^verbatim>\<open>for season in range(...)\<close>: the lines
  printed so far, \<^verbatim>\<open>raw_data\<close> and \<^verbatim>\<open>headings\<close> (None until the first table is seen).
  An exception in the body ends the loop with the state reached and the error.
\<close>

record 'h loop_state =
  printed :: "string list"
  raw_data :: "cell list list"
  headings :: "'h list option"

definition init_state :: "'h loop_state" where
  "init_state = \<lparr>printed = [], raw_data = [], headings = None\<rparr>"

fun for_seasons ::
  "(int \<Rightarrow> 's \<Rightarrow> 's \<times> error option) \<Rightarrow> int list \<Rightarrow> 's \<Rightarrow> 's \<times> error option" where
  "for_seasons body [] st = (st, None)"
| "for_seasons body (season # seasons) st =
     (case body season st of
        (st', Some e) \<Rightarrow> (st', Some e)
      | (st', None) \<Rightarrow> for_seasons body seasons st')"

section \<open>team_batting_bref\<close>

text \<open>
  Lines 50 to 55: the texts of a row's \<^verbatim>\<open>td\<close> cells, stripped, without \<^verbatim>\<open>*\<close> and
  \<^verbatim>\<open>#\<close>, without the cells that contain an aggregate marker, and the season inserted at
  index 2.
\<close>

definition team_row :: "int \<Rightarrow> node \<Rightarrow> cell list" where
  "team_row season row =
     (let cols = find_all ''td'' [] row;
          cols = map (\<lambda>ele. strip (text_of ele)) cols;
          cols = map (\<lambda>col. replace_char CHR ''#'' (replace_char CHR ''*'' col)) cols;
          cols = filter (\<lambda>col. \<not> str_in ''Totals'' col \<and> \<not> str_in ''NL teams'' col
                              \<and> \<not> str_in ''AL teams'' col) cols
      in list_insert 2 (CInt season) (map CStr cols))"

text \<open>
  Lines 38 to 55, the body of the loop.  \<open>session_get\<close> stands for
  \<^verbatim>\<open>session.get\<close> followed by the parser: the document found at a URL.
\<close>

definition team_season ::
  "(string \<Rightarrow> node) \<Rightarrow> string \<Rightarrow> int \<Rightarrow> string loop_state \<Rightarrow> string loop_state \<times> error option"
  where
  "team_season session_get team season st =
     (let st = st\<lparr>printed := printed st @ [''Getting Batting Data: '' @ str_int season @ '' '' @ team]\<rparr>;
          url = ''https://www.baseball-reference.com/teams/'' @ team;
          stats_url = url @ ''/'' @ str_int season @ ''.shtml'';
          soup = session_get stats_url
      in case find_all ''table'' [(''class'', ''sortable stats_table'')] soup of
           [] \<Rightarrow> (st, Some (IndexError ''list index out of range''))
         | table # _ \<Rightarrow>
             (let hs = (case headings st of
                          None \<Rightarrow> map (\<lambda>row. strip (text_of row)) (slice 1 28 (find_all ''th'' [] table))
                        | Some h \<Rightarrow> h);
                  rows = find_all ''tr'' [] table
              in (st\<lparr>headings := Some hs, raw_data := raw_data st @ map (team_row season) rows\<rparr>, None)))"

definition team_batting_bref ::
  "(string \<Rightarrow> node) \<Rightarrow> string \<Rightarrow> int option \<Rightarrow> int option \<Rightarrow> string list \<times> (error + string dataframe)"
  where
  "team_batting_bref session_get team start_season end_season =
     (case start_season of
        None \<Rightarrow> ([], Inl (ValueError ''You need to provide at least one season to collect data for. Try team_batting_bref(season) or team_batting_bref(start_season, end_season).''))
      | Some start \<Rightarrow>
          (let end = (case end_season of None \<Rightarrow> start | Some e \<Rightarrow> e)
           in case for_seasons (team_season session_get team) [start..end] init_state of
                (st, Some e) \<Rightarrow> (printed st, Inl e)
              | (st, None) \<Rightarrow>
                  (case headings st of
                     None \<Rightarrow> (printed st, Inl AssertionError)
                   | Some h \<Rightarrow>
                       (case DataFrame (raw_data st) (list_insert 2 ''Year'' h) of
                          Inl e \<Rightarrow> (printed st, Inl e)
                        | Inr data \<Rightarrow> (printed st, Inr (dropna data))))))"

section \<open>season_batting_bref\<close>

text \<open>
  Lines 101 to 115, one row of the table body: an error, a skipped row (None), or the
  fields of the row.
\<close>

definition season_row :: "int \<Rightarrow> node \<Rightarrow> error + cell list option" where
  "season_row season row =
     (case find ''th'' [(''data-stat'', ''team_name'')] row of
        None \<Rightarrow> Inl (AttributeError ''text'')
      | Some th \<Rightarrow>
          (let team_name = strip (text_of th)
           in if team_name = ''League Average'' then Inr None
              else (case find ''a'' [] th of
                      None \<Rightarrow> Inl (AttributeError ''get'')
                    | Some a_tag \<Rightarrow>
                        (case get a_tag ''href'' of
                           None \<Rightarrow> Inl (AttributeError ''split'')
                         | Some href \<Rightarrow>
                             (case drop 2 (split CHR ''/'' href) of
                                [] \<Rightarrow> Inl (IndexError ''list index out of range'')
                              | team_abbrev # _ \<Rightarrow>
                                  Inr (Some ([CInt season, CStr team_abbrev, CStr team_name]
                                    @ map (\<lambda>td. CStr (strip (text_of td))) (find_all ''td'' [] row))))))))"

fun season_rows :: "int \<Rightarrow> node list \<Rightarrow> cell list list \<Rightarrow> error + cell list list" where
  "season_rows season [] raw = Inr raw"
| "season_rows season (row # rest) raw =
     (case season_row season row of
        Inl e \<Rightarrow> Inl e
      | Inr None \<Rightarrow> season_rows season rest raw
      | Inr (Some cols) \<Rightarrow> season_rows season rest (raw @ [cols]))"

text \<open>Lines 86 to 115, the body of the loop.  The AttributeError of a None is named by the attribute asked of it.\<close>

definition season_season ::
  "(string \<Rightarrow> node) \<Rightarrow> int \<Rightarrow> string option loop_state \<Rightarrow> string option loop_state \<times> error option"
  where
  "season_season session_get season st =
     (let st = st\<lparr>printed := printed st @ [''Getting per-team batting data: '' @ str_int season]\<rparr>;
          season_url = ''https://www.baseball-reference.com/leagues/majors/'' @ str_int season
                         @ ''-standard-batting.shtml'';
          soup = session_get season_url
      in case find ''table'' [(''id'', ''teams_standard_batting'')] soup of
           None \<Rightarrow> (st\<lparr>printed := printed st @ [''Table not found for '' @ str_int season]\<rparr>, None)
         | Some table \<Rightarrow>
             (case (case headings st of
                      Some h \<Rightarrow> Inr h
                    | None \<Rightarrow>
                        (case find ''thead'' [] table of
                           None \<Rightarrow> Inl (AttributeError ''find_all'')
                         | Some thead \<Rightarrow> Inr (map (\<lambda>th. get th ''data-stat'') (find_all ''th'' [] thead)))) of
                Inl e \<Rightarrow> (st, Some e)
              | Inr hs \<Rightarrow>
                  (case find ''tbody'' [] table of
                     None \<Rightarrow> (st\<lparr>headings := Some hs\<rparr>, Some (AttributeError ''find_all''))
                   | Some tbody \<Rightarrow>
                       (case season_rows season (find_all ''tr'' [] tbody) (raw_data st) of
                          Inl e \<Rightarrow> (st\<lparr>headings := Some hs\<rparr>, Some e)
                        | Inr raw \<Rightarrow> (st\<lparr>headings := Some hs, raw_data := raw\<rparr>, None)))))"

definition season_batting_bref ::
  "(string \<Rightarrow> node) \<Rightarrow> int option \<Rightarrow> int option \<Rightarrow> string list \<times> (error + string option dataframe)"
  where
  "season_batting_bref session_get start_season end_season =
     (case start_season of
        None \<Rightarrow> ([], Inl (ValueError ''You need to provide at least one season to collect data for. Try season_batting_bref(season) or season_batting_bref(start_season, end_season).''))
      | Some start \<Rightarrow>
          (let end = (case end_season of None \<Rightarrow> start | Some e \<Rightarrow> e)
           in case for_seasons (season_season session_get) [start..end] init_state of
                (st, Some e) \<Rightarrow> (printed st, Inl e)
              | (st, None) \<Rightarrow>
                  (case headings st of
                     None \<Rightarrow> (printed st, Inl AssertionError)
                   | Some h \<Rightarrow>
                       (let hs = [Some ''season'', Some ''team_abbrev'', Some ''team_name''] @ drop 1 h
                        in case DataFrame (raw_data st) hs of
                             Inl e \<Rightarrow> (printed st, Inl e)
                           | Inr data \<Rightarrow> (let dropped = dropna data in (printed st, Inr data))))))"

section \<open>The parts of a call, named\<close>

text \<open>
  The theorems speak of what the loop body reads for one season and what it appends.
  These definitions name those parts; each is the expression of the body it is cut from.
\<close>

text \<open>The season a call ends with (lines 30 to 31 and 77 to 78).\<close>

definition the_end :: "int \<Rightarrow> int option \<Rightarrow> int" where
  "the_end start end_season = (case end_season of None \<Rightarrow> start | Some e \<Rightarrow> e)"

subsection \<open>Team pages\<close>

definition team_url :: "string \<Rightarrow> int \<Rightarrow> string" where
  "team_url team season = (''https://www.baseball-reference.com/teams/'' @ team) @ ''/'' @ str_int season @ ''.shtml''"

text \<open>Line 43 before its \<^verbatim>\<open>[0]\<close>: the sortable statistics tables of the season's page.\<close>

definition team_tables :: "(string \<Rightarrow> node) \<Rightarrow> string \<Rightarrow> int \<Rightarrow> node list" where
  "team_tables session_get team season =
     find_all ''table'' [(''class'', ''sortable stats_table'')] (session_get (team_url team season))"


text \<open>Lines 48 to 55: the rows the season appends to \<^verbatim>\<open>raw_data\<close>.\<close>

definition team_page_rows :: "(string \<Rightarrow> node) \<Rightarrow> string \<Rightarrow> int \<Rightarrow> cell list list" where
  "team_page_rows session_get team season =
     (case team_tables session_get team season of
        [] \<Rightarrow> []
      | table # _ \<Rightarrow> map (team_row season) (find_all ''tr'' [] table))"



subsection \<open>League pages\<close>

definition season_url :: "int \<Rightarrow> string" where
  "season_url season = ''https://www.baseball-reference.com/leagues/majors/'' @ str_int season
                         @ ''-standard-batting.shtml''"

text \<open>Line 91: the table of the season's page, or None.\<close>

definition season_table :: "(string \<Rightarrow> node) \<Rightarrow> int \<Rightarrow> node option" where
  "season_table session_get season =
     find ''table'' [(''id'', ''teams_standard_batting'')] (session_get (season_url season))"


text \<open>Lines 86 and 93: what a season without table prints.\<close>

definition season_notice :: "int \<Rightarrow> string list" where
  "season_notice season =
     [''Getting per-team batting data: '' @ str_int season, ''Table not found for '' @ str_int season]"

text \<open>Lines 99 to 115: the rows the season appends to \<^verbatim>\<open>raw_data\<close>.\<close>

definition season_kept :: "int \<Rightarrow> node list \<Rightarrow> cell list list" where
  "season_kept season trs =
     concat (map (\<lambda>tr. case season_row season tr of Inr (Some cols) \<Rightarrow> [cols] | _ \<Rightarrow> []) trs)"

definition season_page_rows :: "(string \<Rightarrow> node) \<Rightarrow> int \<Rightarrow> cell list list" where
  "season_page_rows session_get season =
     (case season_table session_get season of
        None \<Rightarrow> []
      | Some table \<Rightarrow>
          (case find ''tbody'' [] table of
             None \<Rightarrow> []
           | Some tbody \<Rightarrow> season_kept season (find_all ''tr'' [] tbody)))"










subsection \<open>Properties of rows\<close>

text \<open>
  The integers of a row.  The only integer either entry point puts in a row is the season
  the row was scraped for, so this list is the row's season.
\<close>

fun cell_ints :: "cell \<Rightarrow> int list" where
  "cell_ints (CInt i) = [i]"
| "cell_ints (CStr s) = []"
| "cell_ints CNone = []"

definition row_seasons :: "cell list \<Rightarrow> int list" where
  "row_seasons r = concat (map cell_ints r)"

text \<open>A row is entirely empty when every field other than the season, which the code adds itself, is missing or blank.\<close>

fun empty_field :: "cell \<Rightarrow> bool" where
  "empty_field (CInt i) = True"
| "empty_field (CStr s) = (s = [])"
| "empty_field CNone = True"

definition entirely_empty :: "cell list \<Rightarrow> bool" where
  "entirely_empty r = list_all empty_field r"

text \<open>A cell is decorated when it is a text in which \<^verbatim>\<open>*\<close> or \<^verbatim>\<open>#\<close> occurs.\<close>

fun decorated :: "cell \<Rightarrow> bool" where
  "decorated (CInt i) = False"
| "decorated (CStr s) = (CHR ''*'' \<in> set s \<or> CHR ''#'' \<in> set s)"
| "decorated CNone = False"


subsection \<open>Documents to run the entry points on\<close>

text \<open>A page without any table.\<close>

definition no_table_page :: node where
  "no_table_page = Tag ''[document]'' [] [Tag ''p'' [] [Text ''Page Not Found'']]"

text \<open>
  A team page: a header row of three \<^verbatim>\<open>th\<close> cells, a player row and a totals row.
\<close>

definition team_page :: node where
  "team_page = Tag ''[document]'' []
     [Tag ''table'' [(''class'', ''sortable stats_table'')]
        [Tag ''tr'' [] [Tag ''th'' [] [Text ''Rk''], Tag ''th'' [] [Text '' Pos ''], Tag ''th'' [] [Text ''Name'']],
         Tag ''tr'' [] [Tag ''td'' [] [Text ''C''], Tag ''td'' [] [Text '' Gary*# '']],
         Tag ''tr'' [] [Tag ''td'' [] [Text ''Team Totals''], Tag ''td'' [] [Text ''5'']]]]"


text \<open>A team page with a row of two blank cells.\<close>

definition blank_team_page :: node where
  "blank_team_page = Tag ''[document]'' []
     [Tag ''table'' [(''class'', ''sortable stats_table'')]
        [Tag ''tr'' [] [Tag ''th'' [] [Text ''Rk''], Tag ''th'' [] [Text ''Pos''], Tag ''th'' [] [Text ''Name'']],
         Tag ''tr'' [] [Tag ''td'' [] [], Tag ''td'' [] [Text '' '']]]]"


text \<open>A team page whose table has a header row and nothing else.\<close>

definition header_only_team_page :: node where
  "header_only_team_page = Tag ''[document]'' []
     [Tag ''table'' [(''class'', ''sortable stats_table'')]
        [Tag ''tr'' [] [Tag ''th'' [] [Text ''Rk''], Tag ''th'' [] [Text ''Pos''], Tag ''th'' [] [Text ''Name'']]]]"


text \<open>
  A league page: two headings; a team row whose name carries a \<^verbatim>\<open>*\<close>, the league
  average row, and a linked totals row without cells.
\<close>

definition league_page :: node where
  "league_page = Tag ''[document]'' []
     [Tag ''table'' [(''id'', ''teams_standard_batting'')]
        [Tag ''thead'' []
           [Tag ''tr'' [] [Tag ''th'' [(''data-stat'', ''team_name'')] [Text ''Tm''],
                           Tag ''th'' [(''data-stat'', ''R'')] [Text ''R'']]],
         Tag ''tbody'' []
           [Tag ''tr'' []
              [Tag ''th'' [(''data-stat'', ''team_name'')]
                 [Tag ''a'' [(''href'', ''/teams/NYY/2020.shtml'')] [Text ''New York Yankees*'']],
               Tag ''td'' [] [Text '' 315 '']],
            Tag ''tr'' []
              [Tag ''th'' [(''data-stat'', ''team_name'')] [Text ''League Average''],
               Tag ''td'' [] [Text ''300'']],
            Tag ''tr'' []
              [Tag ''th'' [(''data-stat'', ''team_name'')]
                 [Tag ''a'' [(''href'', ''/teams/BOS/2020.shtml'')] [Text ''Team Totals'']]]]]]"


text \<open>A league page with one row whose label, link pieces and cell are blank.\<close>

definition blank_league_page :: node where
  "blank_league_page = Tag ''[document]'' []
     [Tag ''table'' [(''id'', ''teams_standard_batting'')]
        [Tag ''thead'' []
           [Tag ''tr'' [] [Tag ''th'' [(''data-stat'', ''team_name'')] [Text ''Tm''],
                           Tag ''th'' [(''data-stat'', ''R'')] [Text ''R'']]],
         Tag ''tbody'' []
           [Tag ''tr'' []
              [Tag ''th'' [(''data-stat'', ''team_name'')] [Tag ''a'' [(''href'', ''//'')] [Text '' '']],
               Tag ''td'' [] [Text '''']]]]]"


text \<open>The site when the team's page for 2020 holds no table and every other page is the team page.\<close>

definition team_pages_but_2020 :: "string \<Rightarrow> node" where
  "team_pages_but_2020 u =
     (if u = ''https://www.baseball-reference.com/teams/NYY/2020.shtml'' then no_table_page
      else team_page)"

section \<open>Lemmas\<close>

subsection \<open>Strings and lists\<close>




lemma set_list_insert: "set (list_insert i x xs) = insert x (set xs)"
proof -
  have "set (take i xs) \<union> set (drop i xs) = set xs"
    by (metis append_take_drop_id set_append)
  then show ?thesis by (auto simp: list_insert_def)
qed




subsection \<open>The season of a row\<close>

lemma row_seasons_append: "row_seasons (xs @ ys) = row_seasons xs @ row_seasons ys"
  by (simp add: row_seasons_def)

lemma row_seasons_CStr: "row_seasons (map CStr xs) = []"
  by (induction xs) (simp_all add: row_seasons_def)

lemma row_seasons_replicate_CNone: "row_seasons (replicate n CNone) = []"
  by (induction n) (simp_all add: row_seasons_def)

lemma row_seasons_pad_row: "row_seasons (pad_row w r) = row_seasons r"
  by (simp add: pad_row_def row_seasons_append row_seasons_replicate_CNone)

lemma row_seasons_list_insert:
  "row_seasons (list_insert i (CInt s) (map CStr cols)) = [s]"
proof -
  have "row_seasons (take i (map CStr cols)) = []" "row_seasons (drop i (map CStr cols)) = []"
    by (simp_all add: take_map drop_map row_seasons_CStr)
  then show ?thesis
    by (simp add: list_insert_def row_seasons_append) (simp add: row_seasons_def)
qed

lemma row_seasons_pages_subset:
  assumes "\<And>y r. y \<in> set ss \<Longrightarrow> r \<in> set (f y) \<Longrightarrow> row_seasons r = [y]"
  shows "set (concat (map row_seasons (concat (map f ss)))) \<subseteq> set ss"
  using assms by fastforce

lemma row_seasons_one_page:
  assumes "\<And>r. r \<in> set xs \<Longrightarrow> row_seasons r = [y]"
  shows "concat (map row_seasons xs) = replicate (length xs) y"
  using assms by (induction xs) auto

lemma sorted_row_seasons_pages:
  assumes "sorted ss" and "\<And>y r. y \<in> set ss \<Longrightarrow> r \<in> set (f y) \<Longrightarrow> row_seasons r = [y]"
  shows "sorted (concat (map row_seasons (concat (map f ss))))"
  using assms
proof (induction ss)
  case Nil
  then show ?case by simp
next
  case (Cons a ss)
  have one: "concat (map row_seasons (f a)) = replicate (length (f a)) a"
    using Cons.prems(2) by (intro row_seasons_one_page) simp
  have rest: "sorted (concat (map row_seasons (concat (map f ss))))"
    using Cons by simp
  have sub: "set (concat (map row_seasons (concat (map f ss)))) \<subseteq> set ss"
    using Cons.prems(2) by (intro row_seasons_pages_subset) simp
  have "\<forall>x\<in>set (replicate (length (f a)) a). \<forall>y\<in>set (concat (map row_seasons (concat (map f ss)))). x \<le> y"
    using sub Cons.prems(1) by auto
  with one rest show ?case by (simp add: sorted_append)
qed

lemma sorted_row_seasons_filter:
  "sorted (concat (map row_seasons xs)) \<Longrightarrow> sorted (concat (map row_seasons (filter P xs)))"
  by (induction xs) (auto simp: sorted_append)

lemma row_seasons_map_pad_row: "map row_seasons (map (pad_row w) xs) = map row_seasons xs"
  by (simp add: row_seasons_pad_row)

subsection \<open>The table constructor\<close>

lemma length_le_width: "r \<in> set data \<Longrightarrow> length r \<le> width data"
  unfolding width_def by (induction data) auto


lemma DataFrame_Inr:
  assumes "DataFrame data cols = Inr df"
  shows "columns df = cols"
    and "rows df = map (pad_row (length cols)) data"
    and "r \<in> set data \<Longrightarrow> length r \<le> length cols"
  using assms length_le_width [of r data]
  by (auto simp: DataFrame_def split: if_splits)

lemma length_pad_row: "length r \<le> w \<Longrightarrow> length (pad_row w r) = w"
  by (simp add: pad_row_def)

lemma pad_row_no_None:
  assumes "CNone \<notin> set (pad_row w r)"
  shows "pad_row w r = r"
  using assms by (cases "w - length r") (simp_all add: pad_row_def)




subsection \<open>Rows of a team page\<close>

lemma team_row_shape:
  "\<exists>cols. team_row season row = list_insert 2 (CInt season) (map CStr cols)
     \<and> (\<forall>col\<in>set cols. CHR ''*'' \<notin> set col \<and> CHR ''#'' \<notin> set col
          \<and> \<not> str_in ''Totals'' col \<and> \<not> str_in ''NL teams'' col \<and> \<not> str_in ''AL teams'' col)"
  unfolding team_row_def Let_def
  by (rule exI, rule conjI, rule refl) (auto simp: replace_char_def)


lemma row_seasons_team_row: "row_seasons (team_row season row) = [season]"
  using team_row_shape [of season row] by (auto simp: row_seasons_list_insert)


lemma team_row_CStr:
  assumes "CStr v \<in> set (team_row season row)"
  shows "CHR ''*'' \<notin> set v \<and> CHR ''#'' \<notin> set v
          \<and> \<not> str_in ''Totals'' v \<and> \<not> str_in ''NL teams'' v \<and> \<not> str_in ''AL teams'' v"
  using team_row_shape [of season row] assms by (auto simp: set_list_insert)



lemma team_page_rows_row:
  assumes "r \<in> set (team_page_rows g team y)"
  shows "\<exists>tr. r = team_row y tr"
  using assms by (auto simp: team_page_rows_def split: list.splits)

lemma team_page_rows_season:
  assumes "r \<in> set (team_page_rows g team y)"
  shows "row_seasons r = [y]"
  using team_page_rows_row [OF assms] by (auto simp: row_seasons_team_row)


subsection \<open>The loop of team_batting_bref\<close>

lemma team_season_None:
  assumes "team_season g team season st = (st', None)"
  shows "raw_data st' = raw_data st @ team_page_rows g team season"
    and "headings st' \<noteq> None"
    and "headings st \<noteq> None \<Longrightarrow> headings st' = headings st"
    and "team_tables g team season \<noteq> []"
  using assms
  by (auto simp: team_season_def team_page_rows_def team_tables_def team_url_def Let_def
           split: list.splits option.splits)

lemma team_season_Some:
  assumes "team_season g team season st = (st', Some e)"
  shows "e = IndexError ''list index out of range''" and "team_tables g team season = []"
  using assms
  by (auto simp: team_season_def team_tables_def team_url_def Let_def split: list.splits)



lemma team_loop_raw_data:
  "for_seasons (team_season g team) ss st = (st', None) \<Longrightarrow>
     raw_data st' = raw_data st @ concat (map (team_page_rows g team) ss)"
proof (induction ss arbitrary: st)
  case Nil
  then show ?case by simp
next
  case (Cons s ss)
  obtain st1 r where b: "team_season g team s st = (st1, r)" by (cases "team_season g team s st")
  with Cons.prems have r: "r = None" and l: "for_seasons (team_season g team) ss st1 = (st', None)"
    by (auto split: option.splits)
  from team_season_None(1) [OF b [unfolded r]] Cons.IH [OF l] show ?case by simp
qed


lemma team_loop_no_table:
  "s \<in> set ss \<Longrightarrow> team_tables g team s = [] \<Longrightarrow>
     snd (for_seasons (team_season g team) ss st) = Some (IndexError ''list index out of range'')"
proof (induction ss arbitrary: st)
  case Nil
  then show ?case by simp
next
  case (Cons a ss)
  obtain st1 r where b: "team_season g team a st = (st1, r)" by (cases "team_season g team a st")
  show ?case
  proof (cases r)
    case None
    with b team_season_None(4) have "team_tables g team a \<noteq> []" by blast
    with Cons.prems have "s \<in> set ss" by auto
    from Cons.IH [OF this Cons.prems(2)] b None show ?thesis by simp
  next
    case (Some e)
    with b team_season_Some(1) have "e = IndexError ''list index out of range''" by blast
    with b Some show ?thesis by simp
  qed
qed


subsection \<open>The table team_batting_bref returns\<close>

lemma team_batting_bref_None: "team_batting_bref g team None eo \<noteq> (out, Inr df)"
  by (simp add: team_batting_bref_def)

lemma team_batting_bref_Inr:
  assumes "team_batting_bref g team (Some s) eo = (out, Inr df)"
  shows "\<exists>h. columns df = list_insert 2 ''Year'' h
           \<and> rows df = filter (\<lambda>r. CNone \<notin> set r) (map (pad_row (length (columns df)))
                (concat (map (team_page_rows g team) [s..the_end s eo])))
           \<and> (\<forall>r\<in>set (concat (map (team_page_rows g team) [s..the_end s eo])).
                 length r \<le> length (columns df))"
proof -
  obtain st r where l: "for_seasons (team_season g team) [s..the_end s eo] init_state = (st, r)"
    by (cases "for_seasons (team_season g team) [s..the_end s eo] init_state")
  from assms l have r: "r = None"
    by (auto simp: team_batting_bref_def the_end_def Let_def split: option.splits)
  from assms l r obtain h where h: "headings st = Some h"
    by (auto simp: team_batting_bref_def the_end_def Let_def split: option.splits)
  from assms l r h obtain data where
    d: "DataFrame (raw_data st) (list_insert 2 ''Year'' h) = Inr data" and df: "df = dropna data"
    by (auto simp: team_batting_bref_def the_end_def Let_def split: option.splits sum.splits)
  have raw: "raw_data st = concat (map (team_page_rows g team) [s..the_end s eo])"
    using team_loop_raw_data [OF l [unfolded r]] by (simp add: init_state_def)
  have c: "columns df = list_insert 2 ''Year'' h"
    using DataFrame_Inr(1) [OF d] df by (simp add: dropna_def)
  have "rows df = filter (\<lambda>r. CNone \<notin> set r) (map (pad_row (length (columns df))) (raw_data st))"
    using DataFrame_Inr(1,2) [OF d] df by (simp add: dropna_def)
  moreover have "\<forall>r\<in>set (raw_data st). length r \<le> length (columns df)"
    using DataFrame_Inr(3) [OF d] c by simp
  ultimately show ?thesis using raw c by (intro exI [of _ h]) simp
qed




lemma team_result_row:
  assumes "team_batting_bref g team (Some s) eo = (out, Inr df)" and "r \<in> set (rows df)"
  shows "\<exists>y tr. s \<le> y \<and> y \<le> the_end s eo \<and> r = team_row y tr \<and> length r = length (columns df)"
proof -
  from team_batting_bref_Inr [OF assms(1)] obtain h where
    rw: "rows df = filter (\<lambda>r. CNone \<notin> set r)
           (map (pad_row (length (columns df))) (concat (map (team_page_rows g team) [s..the_end s eo])))"
    and le: "\<forall>r\<in>set (concat (map (team_page_rows g team) [s..the_end s eo])). length r \<le> length (columns df)"
    by blast
  from assms(2) rw obtain r0 y where y: "y \<in> set [s..the_end s eo]"
    and r0: "r0 \<in> set (team_page_rows g team y)"
    and r: "r = pad_row (length (columns df)) r0" and n: "CNone \<notin> set r"
    by auto
  from r n have rr: "r = r0" using pad_row_no_None by metis
  from r0 y le have "length r0 \<le> length (columns df)" by auto
  with r have "length r = length (columns df)" by (simp add: length_pad_row)
  moreover from r0 rr obtain tr where "r = team_row y tr" using team_page_rows_row by blast
  ultimately show ?thesis using y by auto
qed

lemma team_result_season:
  assumes "team_batting_bref g team (Some s) eo = (out, Inr df)" and "r \<in> set (rows df)"
  shows "\<exists>y. row_seasons r = [y] \<and> s \<le> y \<and> y \<le> the_end s eo"
  using team_result_row [OF assms] by (auto simp: row_seasons_team_row)

lemma team_result_sorted:
  assumes "team_batting_bref g team (Some s) eo = (out, Inr df)"
  shows "sorted (concat (map row_seasons (rows df)))"
proof -
  from team_batting_bref_Inr [OF assms] obtain h where
    rw: "rows df = filter (\<lambda>r. CNone \<notin> set r)
           (map (pad_row (length (columns df))) (concat (map (team_page_rows g team) [s..the_end s eo])))"
    by blast
  have "sorted (concat (map row_seasons (concat (map (team_page_rows g team) [s..the_end s eo]))))"
    by (rule sorted_row_seasons_pages) (simp_all add: team_page_rows_season)
  then have "sorted (concat (map row_seasons
      (map (pad_row (length (columns df))) (concat (map (team_page_rows g team) [s..the_end s eo])))))"
    by (simp only: row_seasons_map_pad_row)
  then show ?thesis unfolding rw by (rule sorted_row_seasons_filter)
qed


subsection \<open>Rows of a league page\<close>

lemma season_row_shape:
  assumes "season_row season row = Inr (Some cols)"
  shows "\<exists>th a_tag href team_abbrev tds.
           find ''th'' [(''data-stat'', ''team_name'')] row = Some th
         \<and> find ''a'' [] th = Some a_tag \<and> get a_tag ''href'' = Some href
         \<and> 2 < length (split CHR ''/'' href) \<and> team_abbrev = split CHR ''/'' href ! 2
         \<and> strip (text_of th) \<noteq> ''League Average''
         \<and> cols = [CInt season, CStr team_abbrev, CStr (strip (text_of th))] @ map CStr tds"
proof -
  from assms obtain th where th: "find ''th'' [(''data-stat'', ''team_name'')] row = Some th"
    by (auto simp: season_row_def split: option.splits)
  from assms th have nm: "strip (text_of th) \<noteq> ''League Average''"
    by (auto simp: season_row_def Let_def split: if_splits)
  from assms th nm obtain a_tag where a: "find ''a'' [] th = Some a_tag"
    by (auto simp: season_row_def Let_def split: option.splits)
  from assms th nm a obtain href where h: "get a_tag ''href'' = Some href"
    by (auto simp: season_row_def Let_def split: option.splits)
  from assms th nm a h obtain x xs where d: "drop 2 (split CHR ''/'' href) = x # xs"
    and c: "cols = [CInt season, CStr x, CStr (strip (text_of th))]
               @ map CStr (map (\<lambda>td. strip (text_of td)) (find_all ''td'' [] row))"
    by (auto simp: season_row_def Let_def split: list.splits)
  from d have "2 < length (split CHR ''/'' href)"
    by (metis drop_eq_Nil list.distinct(1) not_le)
  moreover from d have "x = split CHR ''/'' href ! 2"
    by (metis Cons_nth_drop_Suc calculation list.inject)
  ultimately show ?thesis using th nm a h c by blast
qed




lemma season_row_season:
  assumes "season_row y tr = Inr (Some r)"
  shows "row_seasons r = [y]"
  using season_row_shape [OF assms]
  by (auto simp: row_seasons_append row_seasons_CStr) (simp add: row_seasons_def)

lemma season_rows_append:
  "season_rows season trs raw = Inr raw' \<Longrightarrow> raw' = raw @ season_kept season trs"
proof (induction trs arbitrary: raw)
  case Nil
  then show ?case by (simp add: season_kept_def)
next
  case (Cons tr trs)
  show ?case
  proof (cases "season_row season tr")
    case (Inl e)
    with Cons.prems show ?thesis by simp
  next
    case (Inr v)
    show ?thesis
    proof (cases v)
      case None
      with Inr Cons.prems have "season_rows season trs raw = Inr raw'" by simp
      from Cons.IH [OF this] Inr None show ?thesis by (simp add: season_kept_def)
    next
      case (Some cols)
      with Inr Cons.prems have "season_rows season trs (raw @ [cols]) = Inr raw'" by simp
      from Cons.IH [OF this] Inr Some show ?thesis by (simp add: season_kept_def)
    qed
  qed
qed


lemma season_page_rows_row:
  assumes "r \<in> set (season_page_rows g y)"
  shows "\<exists>tr. season_row y tr = Inr (Some r)"
  using assms
  by (auto simp: season_page_rows_def season_kept_def split: option.splits sum.splits)

lemma season_page_rows_season:
  assumes "r \<in> set (season_page_rows g y)"
  shows "row_seasons r = [y]"
  using season_page_rows_row [OF assms] season_row_season by blast



subsection \<open>The loop of season_batting_bref\<close>

lemma season_season_None:
  assumes "season_season g season st = (st', None)"
  shows "raw_data st' = raw_data st @ season_page_rows g season"
  using assms
  by (auto simp: season_season_def season_page_rows_def season_table_def season_url_def Let_def
           split: option.splits sum.splits dest: season_rows_append)



lemma season_season_no_table:
  assumes "season_table g season = None"
  shows "season_season g season st = (st\<lparr>printed := printed st @ season_notice season\<rparr>, None)"
  using assms
  by (simp add: season_season_def season_table_def season_url_def season_notice_def Let_def)

lemma season_loop_raw_data:
  "for_seasons (season_season g) ss st = (st', None) \<Longrightarrow>
     raw_data st' = raw_data st @ concat (map (season_page_rows g) ss)"
proof (induction ss arbitrary: st)
  case Nil
  then show ?case by simp
next
  case (Cons s ss)
  obtain st1 r where b: "season_season g s st = (st1, r)" by (cases "season_season g s st")
  with Cons.prems have r: "r = None" and l: "for_seasons (season_season g) ss st1 = (st', None)"
    by (auto split: option.splits)
  from season_season_None [OF b [unfolded r]] Cons.IH [OF l] show ?case by simp
qed





lemma season_loop_no_tables:
  "(\<And>y. y \<in> set ss \<Longrightarrow> season_table g y = None) \<Longrightarrow>
     for_seasons (season_season g) ss st
       = (st\<lparr>printed := printed st @ concat (map season_notice ss)\<rparr>, None)"
proof (induction ss arbitrary: st)
  case Nil
  then show ?case by simp
next
  case (Cons a ss)
  have "season_season g a st = (st\<lparr>printed := printed st @ season_notice a\<rparr>, None)"
    by (rule season_season_no_table) (simp add: Cons.prems)
  moreover have "for_seasons (season_season g) ss (st\<lparr>printed := printed st @ season_notice a\<rparr>)
       = (st\<lparr>printed := printed st @ season_notice a @ concat (map season_notice ss)\<rparr>, None)"
    using Cons.IH [of "st\<lparr>printed := printed st @ season_notice a\<rparr>"] Cons.prems by simp
  ultimately show ?case by simp
qed

subsection \<open>The table season_batting_bref returns\<close>

lemma season_batting_bref_None: "season_batting_bref g None eo \<noteq> (out, Inr df)"
  by (simp add: season_batting_bref_def)

lemma season_batting_bref_Inr:
  assumes "season_batting_bref g (Some s) eo = (out, Inr df)"
  shows "\<exists>h. columns df = [Some ''season'', Some ''team_abbrev'', Some ''team_name''] @ drop 1 h
           \<and> rows df = map (pad_row (length (columns df)))
                (concat (map (season_page_rows g) [s..the_end s eo]))
           \<and> (\<forall>r\<in>set (concat (map (season_page_rows g) [s..the_end s eo])).
                 length r \<le> length (columns df))"
proof -
  obtain st r where l: "for_seasons (season_season g) [s..the_end s eo] init_state = (st, r)"
    by (cases "for_seasons (season_season g) [s..the_end s eo] init_state")
  from assms l have r: "r = None"
    by (auto simp: season_batting_bref_def the_end_def Let_def split: option.splits)
  from assms l r obtain h where h: "headings st = Some h"
    by (auto simp: season_batting_bref_def the_end_def Let_def split: option.splits)
  let ?hs = "[Some ''season'', Some ''team_abbrev'', Some ''team_name''] @ drop 1 h"
  from assms l r h have d: "DataFrame (raw_data st) ?hs = Inr df"
    by (auto simp: season_batting_bref_def the_end_def Let_def split: option.splits sum.splits)
  have raw: "raw_data st = concat (map (season_page_rows g) [s..the_end s eo])"
    using season_loop_raw_data [OF l [unfolded r]] by (simp add: init_state_def)
  have c: "columns df = ?hs"
    using DataFrame_Inr(1) [OF d] .
  have "rows df = map (pad_row (length (columns df))) (raw_data st)"
    using DataFrame_Inr(1,2) [OF d] by simp
  moreover have "\<forall>r\<in>set (raw_data st). length r \<le> length (columns df)"
    using DataFrame_Inr(3) [OF d] c by simp
  ultimately show ?thesis using raw c by (intro exI [of _ h]) simp
qed




lemma season_batting_bref_no_tables:
  assumes "\<And>y. s \<le> y \<Longrightarrow> y \<le> the_end s eo \<Longrightarrow> season_table g y = None"
  shows "season_batting_bref g (Some s) eo
           = (concat (map season_notice [s..the_end s eo]), Inl AssertionError)"
proof -
  let ?i = "init_state :: string option loop_state"
  have "for_seasons (season_season g) [s..the_end s eo] ?i
       = (?i\<lparr>printed := printed ?i @ concat (map season_notice [s..the_end s eo])\<rparr>, None)"
    by (rule season_loop_no_tables) (simp add: assms)
  then show ?thesis
    by (simp add: season_batting_bref_def the_end_def init_state_def Let_def split: option.splits)
qed

lemma season_result_row:
  assumes "season_batting_bref g (Some s) eo = (out, Inr df)" and "r \<in> set (rows df)"
  shows "\<exists>y tr r0. s \<le> y \<and> y \<le> the_end s eo \<and> season_row y tr = Inr (Some r0)
           \<and> r = pad_row (length (columns df)) r0 \<and> length r0 \<le> length (columns df)"
proof -
  from season_batting_bref_Inr [OF assms(1)] obtain h where
    rw: "rows df = map (pad_row (length (columns df))) (concat (map (season_page_rows g) [s..the_end s eo]))"
    and le: "\<forall>r\<in>set (concat (map (season_page_rows g) [s..the_end s eo])). length r \<le> length (columns df)"
    by blast
  from assms(2) rw obtain r0 y where y: "y \<in> set [s..the_end s eo]"
    and r0: "r0 \<in> set (season_page_rows g y)"
    and r: "r = pad_row (length (columns df)) r0"
    by auto
  from r0 y le have "length r0 \<le> length (columns df)" by auto
  moreover from r0 obtain tr where "season_row y tr = Inr (Some r0)" using season_page_rows_row by blast
  ultimately show ?thesis using y r by auto
qed



lemma season_result_season:
  assumes "season_batting_bref g (Some s) eo = (out, Inr df)" and "r \<in> set (rows df)"
  shows "\<exists>y. row_seasons r = [y] \<and> s \<le> y \<and> y \<le> the_end s eo"
  using season_result_row [OF assms] by (auto simp: row_seasons_pad_row season_row_season)

lemma season_result_sorted:
  assumes "season_batting_bref g (Some s) eo = (out, Inr df)"
  shows "sorted (concat (map row_seasons (rows df)))"
proof -
  from season_batting_bref_Inr [OF assms] obtain h where
    rw: "rows df = map (pad_row (length (columns df))) (concat (map (season_page_rows g) [s..the_end s eo]))"
    by blast
  have "sorted (concat (map row_seasons (concat (map (season_page_rows g) [s..the_end s eo]))))"
    by (rule sorted_row_seasons_pages) (simp_all add: season_page_rows_season)
  then show ?thesis unfolding rw by (simp only: row_seasons_map_pad_row)
qed

section \<open>The entry points on the example pages\<close>

lemma team_page_2019:
  "team_batting_bref (\<lambda>u. team_page) ''NYY'' (Some 2019) None =
     ([''Getting Batting Data: 2019 NYY''],
      Inr \<lparr>columns = [''Pos'', ''Name'', ''Year''],
           rows = [[CStr ''C'', CStr ''Gary'', CInt 2019]]\<rparr>)"
  by code_simp

lemma team_page_2019_2020:
  "team_batting_bref (\<lambda>u. team_page) ''NYY'' (Some 2019) (Some 2020) =
     ([''Getting Batting Data: 2019 NYY'', ''Getting Batting Data: 2020 NYY''],
      Inr \<lparr>columns = [''Pos'', ''Name'', ''Year''],
           rows = [[CStr ''C'', CStr ''Gary'', CInt 2019], [CStr ''C'', CStr ''Gary'', CInt 2020]]\<rparr>)"
  by code_simp








lemma blank_team_page_2019:
  "team_batting_bref (\<lambda>u. blank_team_page) ''NYY'' (Some 2019) None =
     ([''Getting Batting Data: 2019 NYY''],
      Inr \<lparr>columns = [''Pos'', ''Name'', ''Year''], rows = [[CStr '''', CStr '''', CInt 2019]]\<rparr>)"
  by code_simp


lemma header_only_team_page_2019:
  "team_batting_bref (\<lambda>u. header_only_team_page) ''NYY'' (Some 2019) (Some 2019) =
     ([''Getting Batting Data: 2019 NYY''],
      Inl (ValueError ''3 columns passed, passed data had 1 columns''))"
  by code_simp


lemma no_table_2019:
  "team_batting_bref (\<lambda>u. no_table_page) ''NYY'' (Some 2019) None =
     ([''Getting Batting Data: 2019 NYY''], Inl (IndexError ''list index out of range''))"
  by code_simp

lemma team_tables_but_2020: "team_tables team_pages_but_2020 ''NYY'' 2020 = []"
  by code_simp

lemma league_page_2020:
  "season_batting_bref (\<lambda>u. league_page) (Some 2020) None =
     ([''Getting per-team batting data: 2020''],
      Inr \<lparr>columns = [Some ''season'', Some ''team_abbrev'', Some ''team_name'', Some ''R''],
           rows = [[CInt 2020, CStr ''NYY'', CStr ''New York Yankees*'', CStr ''315''],
                   [CInt 2020, CStr ''BOS'', CStr ''Team Totals'', CNone]]\<rparr>)"
  by code_simp



lemma blank_league_page_2020:
  "season_batting_bref (\<lambda>u. blank_league_page) (Some 2020) None =
     ([''Getting per-team batting data: 2020''],
      Inr \<lparr>columns = [Some ''season'', Some ''team_abbrev'', Some ''team_name'', Some ''R''],
           rows = [[CInt 2020, CStr '''', CStr '''', CStr '''']]\<rparr>)"
  by code_simp


section \<open>The claims\<close>

text \<open>
  C1.  \<^verbatim>\<open>season_batting_bref(2030)\<close> on a page without the table
  \<^verbatim>\<open>teams_standard_batting\<close>: the notice is printed, and then the call raises
  AssertionError instead of returning an empty table.
\<close>

theorem season_without_table_raises:
  "season_batting_bref (\<lambda>u. no_table_page) (Some 2030) None =
     ([''Getting per-team batting data: 2030'', ''Table not found for 2030''], Inl AssertionError)"
  by code_simp

text \<open>
  C2 (as amended).  \<^verbatim>\<open>team_batting_bref\<close> drops, in its final cleanup pass (\<^verbatim>\<open>dropna\<close>,
  line 60), every row that has a missing field: the returned rows are the accumulated
  rows, filled to the number of headings, without those that hold a None.  So no row with
  a missing field is returned, and in particular no entirely empty row that has one, such
  as the row of all Nones that a header row becomes.
\<close>

theorem rows_with_missing_field_dropped:
  "team_batting_bref g team (Some s) eo = (out, Inr df) \<longrightarrow>
      rows df = filter (\<lambda>r. CNone \<notin> set r) (map (pad_row (length (columns df)))
                  (concat (map (team_page_rows g team) [s..the_end s eo])))
      \<and> (\<forall>r\<in>set (rows df). CNone \<notin> set r)
      \<and> (\<forall>r. entirely_empty r \<and> CNone \<in> set r \<longrightarrow> r \<notin> set (rows df))"
proof (intro impI conjI allI)
  assume a: "team_batting_bref g team (Some s) eo = (out, Inr df)"
  from team_batting_bref_Inr [OF a]
  show e: "rows df = filter (\<lambda>r. CNone \<notin> set r) (map (pad_row (length (columns df)))
                  (concat (map (team_page_rows g team) [s..the_end s eo])))"
    by blast
  have n: "CNone \<notin> set r" if "r \<in> set (rows df)" for r
    using that unfolding e by simp
  then show "\<forall>r\<in>set (rows df). CNone \<notin> set r" by blast
  fix r assume "entirely_empty r \<and> CNone \<in> set r"
  with n show "r \<notin> set (rows df)" by blast
qed

theorem rows_with_missing_field_dropped_witness:
  "team_batting_bref (\<lambda>u. team_page) ''NYY'' (Some 2019) None =
     ([''Getting Batting Data: 2019 NYY''],
      Inr \<lparr>columns = [''Pos'', ''Name'', ''Year''],
           rows = [[CStr ''C'', CStr ''Gary'', CInt 2019]]\<rparr>)
   \<and> pad_row 3 [CInt 2019] = [CInt 2019, CNone, CNone]
   \<and> entirely_empty [CInt 2019, CNone, CNone]
   \<and> [CInt 2019, CNone, CNone] \<notin> set [[CStr ''C'', CStr ''Gary'', CInt 2019]]"
proof -
  let ?df = "\<lparr>columns = [''Pos'', ''Name'', ''Year''],
              rows = [[CStr ''C'', CStr ''Gary'', CInt 2019]]\<rparr>"
  have e: "entirely_empty [CInt 2019, CNone, CNone] \<and> CNone \<in> set [CInt 2019, CNone, CNone]"
    by (simp add: entirely_empty_def)
  from rows_with_missing_field_dropped [where g = "\<lambda>u. team_page" and team = "''NYY''"
          and s = 2019 and eo = None and out = "[''Getting Batting Data: 2019 NYY'']" and df = ?df]
       team_page_2019 e
  have "[CInt 2019, CNone, CNone] \<notin> set (rows ?df)" by blast
  moreover have "pad_row 3 [CInt 2019] = [CInt 2019, CNone, CNone]" by code_simp
  ultimately show ?thesis using team_page_2019 e by simp
qed

text \<open>
  C2 as stated fails.  A row whose cells are all blank holds no missing value: both entry
  points return it, though every field but the season is blank.
\<close>

theorem blank_rows_returned:
  "team_batting_bref (\<lambda>u. blank_team_page) ''NYY'' (Some 2019) None =
     ([''Getting Batting Data: 2019 NYY''],
      Inr \<lparr>columns = [''Pos'', ''Name'', ''Year''], rows = [[CStr '''', CStr '''', CInt 2019]]\<rparr>)
   \<and> entirely_empty [CStr '''', CStr '''', CInt 2019]
   \<and> season_batting_bref (\<lambda>u. blank_league_page) (Some 2020) None =
     ([''Getting per-team batting data: 2020''],
      Inr \<lparr>columns = [Some ''season'', Some ''team_abbrev'', Some ''team_name'', Some ''R''],
           rows = [[CInt 2020, CStr '''', CStr '''', CStr '''']]\<rparr>)
   \<and> entirely_empty [CInt 2020, CStr '''', CStr '''', CStr '''']"
  using blank_team_page_2019 blank_league_page_2020 by (simp add: entirely_empty_def)




text \<open>
  C4 (as amended).  When the page of some season of the range has no table tagged as a
  sortable statistics table, \<^verbatim>\<open>team_batting_bref\<close> returns no table, not even a partial
  one: it ends with the IndexError of indexing an empty list, whose message is
  \<^verbatim>\<open>list index out of range\<close>.
\<close>

theorem missing_team_table_raises_IndexError:
  assumes "s \<le> y" and "y \<le> e" and "team_tables g team y = []"
  shows "snd (team_batting_bref g team (Some s) (Some e)) = Inl (IndexError ''list index out of range'')"
proof -
  from assms(1,2) have "y \<in> set [s..e]" by simp
  from team_loop_no_table [OF this assms(3)]
  have "snd (for_seasons (team_season g team) [s..e] init_state)
          = Some (IndexError ''list index out of range'')" .
  then show ?thesis
    by (cases "for_seasons (team_season g team) [s..e] init_state")
       (simp add: team_batting_bref_def)
qed

theorem missing_team_table_raises_IndexError_witness:
  "(2019 :: int) \<le> 2020 \<and> (2020 :: int) \<le> 2021
   \<and> team_tables team_pages_but_2020 ''NYY'' 2020 = []
   \<and> snd (team_batting_bref team_pages_but_2020 ''NYY'' (Some 2019) (Some 2021))
       = Inl (IndexError ''list index out of range'')"
  using missing_team_table_raises_IndexError [of 2019 2020 2021 team_pages_but_2020 "''NYY''"]
        team_tables_but_2020
  by simp

text \<open>
  C4 as stated fails.  The error of a season without table is an IndexError, and neither
  the season nor the team occurs in it.
\<close>

theorem missing_team_table_error_names_nothing:
  "team_batting_bref (\<lambda>u. no_table_page) ''NYY'' (Some 2019) None =
     ([''Getting Batting Data: 2019 NYY''], Inl (IndexError ''list index out of range''))
   \<and> \<not> str_in ''2019'' ''list index out of range''
   \<and> \<not> str_in ''NYY'' ''list index out of range''"
  using no_table_2019 by simp

text \<open>
  C5 (as amended).  In a table returned by \<^verbatim>\<open>team_batting_bref\<close>, neither \<^verbatim>\<open>*\<close> nor
  \<^verbatim>\<open>#\<close> occurs in any cell of any row.  (\<^verbatim>\<open>season_batting_bref\<close> strips whitespace only.)
\<close>

theorem team_cells_not_decorated:
  assumes "team_batting_bref g team start_season end_season = (out, Inr df)"
    and "r \<in> set (rows df)" and "c \<in> set r"
  shows "\<not> decorated c"
proof -
  from assms(1) obtain s where s: "start_season = Some s"
    using team_batting_bref_None by (cases start_season) auto
  from team_result_row [OF assms(1) [unfolded s] assms(2)]
  obtain y tr where r: "r = team_row y tr" by blast
  show ?thesis
  proof (cases c)
    case (CStr v)
    with assms(3) r team_row_CStr [of v y tr] show ?thesis by simp
  qed simp_all
qed

theorem team_cells_not_decorated_witness:
  "team_batting_bref (\<lambda>u. team_page) ''NYY'' (Some 2019) None =
     ([''Getting Batting Data: 2019 NYY''],
      Inr \<lparr>columns = [''Pos'', ''Name'', ''Year''],
           rows = [[CStr ''C'', CStr ''Gary'', CInt 2019]]\<rparr>)
   \<and> \<not> decorated (CStr ''Gary'')"
  using team_cells_not_decorated [where g = "\<lambda>u. team_page" and team = "''NYY''"
          and start_season = "Some 2019" and end_season = None
          and out = "[''Getting Batting Data: 2019 NYY'']"
          and df = "\<lparr>columns = [''Pos'', ''Name'', ''Year''], rows = [[CStr ''C'', CStr ''Gary'', CInt 2019]]\<rparr>"
          and r = "[CStr ''C'', CStr ''Gary'', CInt 2019]" and c = "CStr ''Gary''"]
        team_page_2019
  by simp

text \<open>
  C5 as stated fails: \<^verbatim>\<open>season_batting_bref\<close> returns a team name with its \<^verbatim>\<open>*\<close>.
\<close>

theorem league_cell_keeps_decoration:
  "season_batting_bref (\<lambda>u. league_page) (Some 2020) None =
     ([''Getting per-team batting data: 2020''],
      Inr \<lparr>columns = [Some ''season'', Some ''team_abbrev'', Some ''team_name'', Some ''R''],
           rows = [[CInt 2020, CStr ''NYY'', CStr ''New York Yankees*'', CStr ''315''],
                   [CInt 2020, CStr ''BOS'', CStr ''Team Totals'', CNone]]\<rparr>)
   \<and> decorated (CStr ''New York Yankees*'')"
  using league_page_2020 by simp




text \<open>
  C7.  For a call with \<open>s \<le> e\<close>, every row of the returned table carries exactly one
  season, that season lies in \<open>[s, e]\<close>, and the seasons of the rows, read from the first
  row to the last, never decrease.  Both entry points.
\<close>

theorem rows_in_range_in_season_order:
  assumes "s \<le> e"
  shows "(team_batting_bref g team (Some s) (Some e) = (out, Inr df) \<longrightarrow>
            (\<forall>r\<in>set (rows df). \<exists>y. row_seasons r = [y] \<and> s \<le> y \<and> y \<le> e)
            \<and> sorted (concat (map row_seasons (rows df))))
       \<and> (season_batting_bref g (Some s) (Some e) = (out', Inr df') \<longrightarrow>
            (\<forall>r\<in>set (rows df'). \<exists>y. row_seasons r = [y] \<and> s \<le> y \<and> y \<le> e)
            \<and> sorted (concat (map row_seasons (rows df'))))"
proof (intro conjI impI ballI)
  fix r assume a: "team_batting_bref g team (Some s) (Some e) = (out, Inr df)" and r: "r \<in> set (rows df)"
  from team_result_season [OF a r] show "\<exists>y. row_seasons r = [y] \<and> s \<le> y \<and> y \<le> e"
    by (simp add: the_end_def)
next
  assume "team_batting_bref g team (Some s) (Some e) = (out, Inr df)"
  then show "sorted (concat (map row_seasons (rows df)))" by (rule team_result_sorted)
next
  fix r assume a: "season_batting_bref g (Some s) (Some e) = (out', Inr df')" and r: "r \<in> set (rows df')"
  from season_result_season [OF a r] show "\<exists>y. row_seasons r = [y] \<and> s \<le> y \<and> y \<le> e"
    by (simp add: the_end_def)
next
  assume "season_batting_bref g (Some s) (Some e) = (out', Inr df')"
  then show "sorted (concat (map row_seasons (rows df')))" by (rule season_result_sorted)
qed

theorem rows_in_range_in_season_order_witness:
  "(2019 :: int) \<le> 2020
   \<and> team_batting_bref (\<lambda>u. team_page) ''NYY'' (Some 2019) (Some 2020) =
     ([''Getting Batting Data: 2019 NYY'', ''Getting Batting Data: 2020 NYY''],
      Inr \<lparr>columns = [''Pos'', ''Name'', ''Year''],
           rows = [[CStr ''C'', CStr ''Gary'', CInt 2019], [CStr ''C'', CStr ''Gary'', CInt 2020]]\<rparr>)
   \<and> sorted (concat (map row_seasons
        [[CStr ''C'', CStr ''Gary'', CInt 2019], [CStr ''C'', CStr ''Gary'', CInt 2020]]))"
  using rows_in_range_in_season_order [where s = 2019 and e = 2020 and g = "\<lambda>u. team_page"
          and team = "''NYY''"
          and out = "[''Getting Batting Data: 2019 NYY'', ''Getting Batting Data: 2020 NYY'']"
          and df = "\<lparr>columns = [''Pos'', ''Name'', ''Year''],
           rows = [[CStr ''C'', CStr ''Gary'', CInt 2019], [CStr ''C'', CStr ''Gary'', CInt 2020]]\<rparr>"]
        team_page_2019_2020
  by simp




text \<open>
  C9.  Omitting \<^verbatim>\<open>end_season\<close> is the same as passing \<^verbatim>\<open>end_season = start_season\<close>:
  on the same pages, both entry points return the same result (the same printed lines and
  the same table or error) for \<open>(s)\<close> and for \<open>(s, s)\<close>.
\<close>

theorem end_season_defaults_to_start:
  "team_batting_bref g team (Some s) None = team_batting_bref g team (Some s) (Some s)
   \<and> season_batting_bref g (Some s) None = season_batting_bref g (Some s) (Some s)"
  by (simp add: team_batting_bref_def season_batting_bref_def)

theorem end_season_defaults_to_start_witness:
  "team_batting_bref (\<lambda>u. team_page) ''NYY'' (Some 2019) (Some 2019) =
     ([''Getting Batting Data: 2019 NYY''],
      Inr \<lparr>columns = [''Pos'', ''Name'', ''Year''],
           rows = [[CStr ''C'', CStr ''Gary'', CInt 2019]]\<rparr>)"
  using end_season_defaults_to_start [of "\<lambda>u. team_page" "''NYY''" 2019] team_page_2019
  by simp

text \<open>
  C10.  A call whose start season is greater than its end season runs the loop zero times,
  prints nothing, never sets \<^verbatim>\<open>headings\<close>, and raises the AssertionError of
  \<^verbatim>\<open>assert headings is not None\<close>; it does not return an empty table.  Both entry points.
\<close>

theorem empty_range_raises_AssertionError:
  assumes "e < s"
  shows "team_batting_bref g team (Some s) (Some e) = ([], Inl AssertionError)
       \<and> season_batting_bref g (Some s) (Some e) = ([], Inl AssertionError)"
  using assms by (simp add: team_batting_bref_def season_batting_bref_def init_state_def)

theorem empty_range_raises_AssertionError_witness:
  "(2019 :: int) < 2020
   \<and> team_batting_bref (\<lambda>u. team_page) ''NYY'' (Some 2020) (Some 2019) = ([], Inl AssertionError)
   \<and> season_batting_bref (\<lambda>u. league_page) (Some 2020) (Some 2019) = ([], Inl AssertionError)"
  using empty_range_raises_AssertionError [of 2019 2020 "\<lambda>u. team_page" "''NYY''"]
        empty_range_raises_AssertionError [of 2019 2020 "\<lambda>u. league_page" "''NYY''"]
  by simp

end
